theory Spec2Isabelle
  imports Complex_Main "HOL-Library.AList"
begin

section \<open>JavaScript values, exceptions and Map objects\<close>

text \<open>
  Values that reach the servers from outside (query parameters, tool arguments) are
  untyped at run time; the TypeScript casts (\<open>as string\<close>) do nothing there.
  \<open>JObject\<close> stands for any array or object.
\<close>

datatype jsval = JUndefined | JNull | JBool bool | JNum real | JStr string | JObject

text \<open>The truthiness test behind \<open>!x\<close>, \<open>x || y\<close> and \<open>if (x)\<close>.\<close>

fun truthy :: "jsval \<Rightarrow> bool" where
  "truthy JUndefined = False"
| "truthy JNull = False"
| "truthy (JBool b) = b"
| "truthy (JNum n) = (n \<noteq> 0)"
| "truthy (JStr s) = (s \<noteq> [])"
| "truthy JObject = True"

text \<open>
  A thrown value: \<open>message\<close> is \<open>error.message\<close>, \<open>response_error\<close> is
  \<open>error.response?.data?.error\<close> (present on a failed HTTP call whose body carries an
  error string, absent on every other exception).
\<close>

datatype js_exn = JsError (message: string) (response_error: "string option")

text \<open>
  A JavaScript \<open>Map\<close> with string keys keeps its entries in insertion order:
  \<open>set\<close> overwrites in place or appends, \<open>delete\<close> reports whether the key was there,
  \<open>get\<close> with a key that is not a string finds nothing.
\<close>

type_synonym 'v js_map = "(string \<times> 'v) list"

definition map_get :: "'v js_map \<Rightarrow> jsval \<Rightarrow> 'v option" where
  "map_get m k = (case k of JStr s \<Rightarrow> map_of m s | _ \<Rightarrow> None)"

definition map_set :: "string \<Rightarrow> 'v \<Rightarrow> 'v js_map \<Rightarrow> 'v js_map" where
  "map_set k v m = AList.update k v m"

definition map_delete :: "string \<Rightarrow> 'v js_map \<Rightarrow> bool \<times> 'v js_map" where
  "map_delete k m = (map_of m k \<noteq> None, AList.delete k m)"

definition map_keys :: "'v js_map \<Rightarrow> string list" where
  "map_keys m = map fst m"

section \<open>Session state of the OAuth server\<close>

text \<open>
  A transport is the SDK's \<open>SSEServerTransport\<close>: it carries the session id the SDK
  generated for it and the response stream it writes to.
\<close>

record SSEServerTransport =
  sessionId :: string
  stream :: nat

text \<open>The two module-level maps: \<open>transports\<close> and \<open>sessionTokens\<close>.\<close>

record server_state =
  transports :: "SSEServerTransport js_map"
  sessionTokens :: "string js_map"

text \<open>
  \<open>getCurrentAccessToken\<close>. The first argument is what \<open>sessionContext.getStore()\<close>
  returns in the calling execution: the value bound by the enclosing
  \<open>sessionContext.run\<close>, or \<open>undefined\<close> outside of one. The binding itself is kept by
  the runtime (AsyncLocalStorage); the model passes it explicitly.
\<close>

definition getCurrentAccessToken :: "jsval \<Rightarrow> server_state \<Rightarrow> string option" where
  "getCurrentAccessToken store st =
     (if \<not> truthy store then None else map_get (sessionTokens st) store)"

subsection \<open>Opening a stream: \<open>GET /sse\<close>\<close>

text \<open>The bearer token of the Authorization header, if the header has one.\<close>

definition bearerToken :: "string option \<Rightarrow> string option" where
  "bearerToken authHeader =
     (case authHeader of
        None \<Rightarrow> None
      | Some h \<Rightarrow> if take 7 h = ''Bearer '' then Some (drop 7 h) else None)"

text \<open>
  The handler mutates the maps at two places, with an \<open>await\<close> (token introspection)
  between them: \<open>transports.set(sessionId, transport)\<close> and, in both outcomes of the
  introspection, \<open>sessionTokens.set(sessionId, accessToken)\<close>.
\<close>

definition sseRegister :: "SSEServerTransport \<Rightarrow> server_state \<Rightarrow> server_state" where
  "sseRegister transport st =
     st\<lparr>transports := map_set (sessionId transport) transport (transports st)\<rparr>"

definition sseStoreToken :: "string \<Rightarrow> string \<Rightarrow> server_state \<Rightarrow> server_state" where
  "sseStoreToken sid accessToken st =
     st\<lparr>sessionTokens := map_set sid accessToken (sessionTokens st)\<rparr>"

datatype sse_outcome = SseUnauthorized | SseSetupFailed | SseEstablished string

text \<open>
  The whole handler, run without interruption. \<open>connect_ok\<close> says whether the SDK's
  \<open>server.connect(transport)\<close> returned rather than threw.
\<close>

definition sseConnect ::
  "string option \<Rightarrow> SSEServerTransport \<Rightarrow> bool \<Rightarrow> server_state \<Rightarrow> sse_outcome \<times> server_state"
where
  "sseConnect authHeader transport connect_ok st =
     (case bearerToken authHeader of
        None \<Rightarrow> (SseUnauthorized, st)
      | Some accessToken \<Rightarrow>
          if accessToken = [] then (SseUnauthorized, st)
          else if \<not> connect_ok then (SseSetupFailed, st)
          else (SseEstablished (sessionId transport),
                sseStoreToken (sessionId transport) accessToken (sseRegister transport st)))"

subsection \<open>Closing a stream\<close>

text \<open>
  The listeners registered on the request for \<open>close\<close> and for \<open>error\<close>: each deletes
  the session id from \<open>transports\<close> and then from \<open>sessionTokens\<close>. The results of the
  two \<open>delete\<close> calls (was the key there?) are returned beside the new state; the
  source discards them.
\<close>

definition onClose :: "string \<Rightarrow> server_state \<Rightarrow> (bool \<times> bool) \<times> server_state" where
  "onClose sid st =
     (let (hadTransport, ts) = map_delete sid (transports st);
          (hadToken, toks) = map_delete sid (sessionTokens st)
      in ((hadTransport, hadToken), st\<lparr>transports := ts, sessionTokens := toks\<rparr>))"

definition onError :: "string \<Rightarrow> server_state \<Rightarrow> (bool \<times> bool) \<times> server_state" where
  "onError sid st =
     (let (hadTransport, ts) = map_delete sid (transports st);
          (hadToken, toks) = map_delete sid (sessionTokens st)
      in ((hadTransport, hadToken), st\<lparr>transports := ts, sessionTokens := toks\<rparr>))"

subsection \<open>The OAuth callback\<close>

text \<open>
  \<open>/oauth/callback\<close> stores the exchanged token under a freshly drawn UUID
  (\<open>sessionTokens.set(uuidv4(), access_token)\<close>); the UUID is an input here.
\<close>

definition oauthCallbackStore :: "string \<Rightarrow> string \<Rightarrow> server_state \<Rightarrow> server_state" where
  "oauthCallbackStore uuid access_token st =
     st\<lparr>sessionTokens := map_set uuid access_token (sessionTokens st)\<rparr>"

subsection \<open>Routing a message: \<open>POST /message\<close>\<close>

text \<open>
  The bodies the handlers send: \<open>{error: msg}\<close>, a plain text, and the
  \<open>{error, sessionId, availableSessions}\<close> object of \<open>http-server.ts\<close>.
\<close>

datatype http_body =
    JsonError string
  | PlainText string
  | SessionNotFoundBody string jsval "string list"

text \<open>
  \<open>Respond\<close> is an answer written by the handler itself; \<open>SdkReplied\<close> means the
  transport's \<open>handlePostMessage\<close> has written the answer.
\<close>

datatype http_outcome = Respond nat http_body | SdkReplied

text \<open>
  What \<open>transport.handlePostMessage\<close> (SDK code) did: it returned, or it threw, and
  then \<open>res.headersSent\<close> tells whether it had started an answer.
\<close>

datatype sdk_result = SdkDone | SdkThrew bool

definition postCatch_oauth :: "sdk_result \<Rightarrow> http_outcome" where
  "postCatch_oauth r =
     (case r of
        SdkDone \<Rightarrow> SdkReplied
      | SdkThrew headersSent \<Rightarrow>
          if \<not> headersSent then Respond 500 (JsonError ''Failed to handle message'')
          else SdkReplied)"

text \<open>
  The handler of the OAuth server. \<open>handlePostMessage transport store body\<close> is the
  SDK's method, run inside \<open>sessionContext.run(sessionId, ...)\<close>: its second argument
  is the store bound for that run. \<open>body\<close> is \<open>req.body\<close>, \<open>None\<close> when the body
  parser left it undefined; the log line
  \<open>JSON.stringify(req.body).substring(0, 200)\<close> stands before the \<open>try\<close> and throws a
  TypeError then. \<open>Inl\<close> is an exception that leaves the handler.
\<close>

definition postMessage_oauth ::
  "(SSEServerTransport \<Rightarrow> jsval \<Rightarrow> 'm \<Rightarrow> sdk_result) \<Rightarrow> server_state \<Rightarrow> jsval \<Rightarrow> 'm option
     \<Rightarrow> js_exn + http_outcome"
where
  "postMessage_oauth handlePostMessage st sid body =
     (if \<not> truthy sid then
        Inr (Respond 400 (JsonError ''sessionId query parameter is required''))
      else
        case map_get (transports st) sid of
          None \<Rightarrow>
            Inr (Respond 404 (JsonError
              ''No active SSE connection for this session. Please connect to /sse first.''))
        | Some transport \<Rightarrow>
            (case body of
               None \<Rightarrow>
                 Inl (JsError ''Cannot read properties of undefined (reading 'substring')'' None)
             | Some b \<Rightarrow> Inr (postCatch_oauth (handlePostMessage transport sid b))))"

subsection \<open>The single-tenant HTTP server\<close>

text \<open>
  \<open>http-server.ts\<close> keeps only the \<open>transports\<close> map, binds no session context and
  lets the transport read the request body itself.
\<close>

definition postCatch_http :: "sdk_result \<Rightarrow> http_outcome" where
  "postCatch_http r =
     (case r of
        SdkDone \<Rightarrow> SdkReplied
      | SdkThrew headersSent \<Rightarrow>
          if \<not> headersSent then Respond 500 (JsonError ''Internal server error'')
          else SdkReplied)"

definition postMessage_http ::
  "(SSEServerTransport \<Rightarrow> sdk_result) \<Rightarrow> SSEServerTransport js_map \<Rightarrow> jsval
     \<Rightarrow> js_exn + http_outcome"
where
  "postMessage_http handlePostMessage ts sid =
     (if \<not> truthy sid then Inr (Respond 400 (PlainText ''Missing sessionId parameter''))
      else
        case map_get ts sid of
          None \<Rightarrow> Inr (Respond 404 (SessionNotFoundBody ''Session not found'' sid (map_keys ts)))
        | Some transport \<Rightarrow> Inr (postCatch_http (handlePostMessage transport)))"

subsection \<open>Interleaving\<close>

text \<open>
  The process is single-threaded: between two \<open>await\<close>s a handler runs alone, so the
  maps change only in the atomic steps below, in whatever order the event loop
  schedules them. Handling a message changes neither map.
\<close>

datatype event =
    SseRegister SSEServerTransport
  | SseStoreToken string string
  | OAuthCallback string string
  | StreamClose string
  | StreamError string
  | Message jsval

fun step :: "event \<Rightarrow> server_state \<Rightarrow> server_state" where
  "step (SseRegister t) st = sseRegister t st"
| "step (SseStoreToken sid tok) st = sseStoreToken sid tok st"
| "step (OAuthCallback uuid tok) st = oauthCallbackStore uuid tok st"
| "step (StreamClose sid) st = snd (onClose sid st)"
| "step (StreamError sid) st = snd (onError sid st)"
| "step (Message sid) st = st"

fun run_events :: "event list \<Rightarrow> server_state \<Rightarrow> server_state" where
  "run_events [] st = st"
| "run_events (e # es) st = run_events es (step e st)"

text \<open>Does the event write an entry of session \<open>sid\<close>?\<close>

fun writes_session :: "string \<Rightarrow> event \<Rightarrow> bool" where
  "writes_session sid (SseRegister t) = (sessionId t = sid)"
| "writes_session sid (SseStoreToken s tok) = (s = sid)"
| "writes_session sid (OAuthCallback uuid tok) = (uuid = sid)"
| "writes_session sid (StreamClose s) = (s = sid)"
| "writes_session sid (StreamError s) = (s = sid)"
| "writes_session sid (Message s) = False"

subsection \<open>The \<open>/sse\<close> handler piece by piece\<close>

text \<open>
  The handler of \<open>GET /sse\<close> has two \<open>await\<close>s and so runs in pieces. The piece
  that runs when \<open>await server.connect(transport)\<close> resumes reads the session id,
  does \<open>transports.set\<close> and starts the introspection request. The piece that runs
  when the introspection has answered (or failed) does \<open>sessionTokens.set\<close> and
  only then attaches the \<open>close\<close> and \<open>error\<close> listeners to the request. Between
  the pieces other events are handled. \<open>attached\<close> lists the session ids whose
  request has the listeners.
\<close>

record sse_server =
  maps :: server_state
  attached :: "string list"

definition sseAfterConnect :: "SSEServerTransport \<Rightarrow> sse_server \<Rightarrow> sse_server" where
  "sseAfterConnect transport p = p\<lparr>maps := sseRegister transport (maps p)\<rparr>"

definition sseAfterIntrospect :: "SSEServerTransport \<Rightarrow> string \<Rightarrow> sse_server \<Rightarrow> sse_server" where
  "sseAfterIntrospect transport accessToken p =
     p\<lparr>maps := sseStoreToken (sessionId transport) accessToken (maps p),
       attached := sessionId transport # attached p\<rparr>"

text \<open>
  The request of session \<open>sid\<close> emits \<open>close\<close> (the client went away): the listeners
  attached at that moment run; an event with no listener is lost.
\<close>

definition emitClose :: "string \<Rightarrow> sse_server \<Rightarrow> sse_server" where
  "emitClose sid p =
     (if sid \<in> set (attached p) then p\<lparr>maps := snd (onClose sid (maps p))\<rparr> else p)"

datatype sse_step =
    AfterConnect SSEServerTransport
  | AfterIntrospect SSEServerTransport string
  | CloseEmitted string

fun sse_run_step :: "sse_step \<Rightarrow> sse_server \<Rightarrow> sse_server" where
  "sse_run_step (AfterConnect t) p = sseAfterConnect t p"
| "sse_run_step (AfterIntrospect t tok) p = sseAfterIntrospect t tok p"
| "sse_run_step (CloseEmitted sid) p = emitClose sid p"

fun run_sse :: "sse_step list \<Rightarrow> sse_server \<Rightarrow> sse_server" where
  "run_sse [] p = p"
| "run_sse (x # xs) p = run_sse xs (sse_run_step x p)"

section \<open>The data collaborator and the runtime library\<close>

record GlucoseReading =
  r_value :: real
  r_unit :: string
  r_date :: string
  r_source :: string

record GlucoseStats =
  s_count :: int
  s_average :: real
  s_min :: real
  s_max :: real
  s_unit :: string

record readings_params =
  rp_userId :: jsval
  rp_startDate :: jsval
  rp_endDate :: jsval
  rp_limit :: jsval

record stats_params =
  sp_userId :: jsval
  sp_startDate :: jsval
  sp_endDate :: jsval

text \<open>
  The three methods of a \<open>HealthDataAPI\<close> object. Their bodies perform the HTTP
  request against the remote storage API; what the remote side answers is an input
  of the model. \<open>Inl\<close> is a rejected promise.
\<close>

record HealthDataAPI =
  getGlucoseReadings :: "readings_params \<Rightarrow> js_exn + GlucoseReading list"
  getLatestGlucose :: "jsval \<Rightarrow> js_exn + GlucoseReading option"
  getGlucoseStats :: "stats_params \<Rightarrow> js_exn + GlucoseStats option"

text \<open>The record of the calls a handler made on the collaborator, in order.\<close>

datatype api_call =
    ReadingsCall readings_params
  | LatestCall jsval
  | StatsCall stats_params

record search_result =
  sr_id :: string
  sr_title :: string
  sr_text :: string
  sr_url :: string

record fetch_result =
  fr_id :: string
  fr_title :: string
  fr_text :: string
  fr_url :: string
  fr_metadata_type :: string
  fr_metadata_retrieved_at :: string

text \<open>The objects the handlers pass to \<open>JSON.stringify(_, null, 2)\<close>.\<close>

datatype payload =
    ResultsJson "search_result list"
  | FetchJson fetch_result
  | ReadingJson GlucoseReading
  | ReadingsJson nat "GlucoseReading list"
  | StatsJson GlucoseStats

text \<open>
  What the handlers use of the JavaScript library, as inputs: the clock, date
  parsing and formatting, number and JSON printing, lower-casing, and the match of
  \<open>/last (\d+) days?/\<close> with \<open>parseInt\<close> of its group. A date is its time value in
  milliseconds, \<open>None\<close> for an invalid date (time value NaN); \<open>new Date(undefined)\<close>
  is always invalid.
\<close>

record runtime =
  clock :: int
  dateParse :: "string \<Rightarrow> int option"
  isoFormat :: "int \<Rightarrow> string"
  localMidnight :: "int \<Rightarrow> int"
  localeDate :: "string \<Rightarrow> string"
  localeTime :: "string \<Rightarrow> string"
  numberText :: "real \<Rightarrow> string"
  stringify :: "payload \<Rightarrow> string"
  toLowerCase :: "string \<Rightarrow> string"
  lastDaysMatch :: "string \<Rightarrow> int option"

text \<open>\<open>new Date(number)\<close> clips the time value to the range of valid dates.\<close>

definition newDate :: "int option \<Rightarrow> int option" where
  "newDate v =
     (case v of
        None \<Rightarrow> None
      | Some t \<Rightarrow> if \<bar>t\<bar> \<le> 8640000000000000 then Some t else None)"

text \<open>\<open>Date.prototype.toISOString\<close> throws a RangeError on an invalid date.\<close>

definition toISOString :: "runtime \<Rightarrow> int option \<Rightarrow> js_exn + string" where
  "toISOString rt d =
     (case d of
        None \<Rightarrow> Inl (JsError ''Invalid time value'' None)
      | Some t \<Rightarrow> Inr (isoFormat rt t))"

text \<open>\<open>String.prototype.split\<close> with a one-character separator.\<close>

fun split_on :: "char \<Rightarrow> string \<Rightarrow> string list" where
  "split_on c [] = [[]]"
| "split_on c (x # xs) =
     (if x = c then [] # split_on c xs
      else (case split_on c xs of [] \<Rightarrow> [[x]] | p # ps \<Rightarrow> (x # p) # ps))"

text \<open>\<open>String.prototype.includes\<close>.\<close>

fun includes_str :: "string \<Rightarrow> string \<Rightarrow> bool" where
  "includes_str [] sub = (sub = [])"
| "includes_str (x # xs) sub = (take (length sub) (x # xs) = sub \<or> includes_str xs sub)"

section \<open>Tool handlers\<close>

type_synonym tool_args = "string \<Rightarrow> jsval option"

text \<open>\<open>args?.key\<close>: undefined when the key is missing (or when there are no arguments).\<close>

definition arg :: "tool_args \<Rightarrow> string \<Rightarrow> jsval" where
  "arg args key = (case args key of None \<Rightarrow> JUndefined | Some v \<Rightarrow> v)"

record content_block =
  c_type :: string
  c_text :: string

text \<open>A tool result; \<open>isError = None\<close> is a result object without that key.\<close>

record tool_response =
  content :: "content_block list"
  isError :: "bool option"

definition textResult :: "string \<Rightarrow> tool_response" where
  "textResult s = \<lparr>content = [\<lparr>c_type = ''text'', c_text = s\<rparr>], isError = None\<rparr>"

definition errorResult :: "string \<Rightarrow> tool_response" where
  "errorResult s = \<lparr>content = [\<lparr>c_type = ''text'', c_text = s\<rparr>], isError = Some True\<rparr>"

text \<open>
  The outcome of a \<open>switch\<close> body or of a handler: the value returned (\<open>Inr\<close>) or the
  exception thrown (\<open>Inl\<close>), and the collaborator calls made on the way.
\<close>

type_synonym 'c outcome = "(js_exn + tool_response) \<times> 'c list"

definition throwError :: "string \<Rightarrow> api_call outcome" where
  "throwError msg = (Inl (JsError msg None), [])"

subsection \<open>\<open>parseGlucoseDateQuery\<close>\<close>

definition parseGlucoseDateQuery :: "runtime \<Rightarrow> string \<Rightarrow> js_exn + (string \<times> string)" where
  "parseGlucoseDateQuery rt query =
     (let now = clock rt;
          lowerQuery = toLowerCase rt query;
          range = (\<lambda>startD endD.
            case toISOString rt startD of
              Inl e \<Rightarrow> Inl e
            | Inr s \<Rightarrow> (case toISOString rt endD of Inl e \<Rightarrow> Inl e | Inr e \<Rightarrow> Inr (s, e)))
      in
        if includes_str lowerQuery ''today'' then
          range (newDate (Some (localMidnight rt now))) (Some now)
        else if includes_str lowerQuery ''yesterday'' then
          (let yesterdayStart = localMidnight rt (now - 24 * 60 * 60 * 1000)
           in range (newDate (Some yesterdayStart))
                    (newDate (Some (yesterdayStart + 24 * 60 * 60 * 1000))))
        else
          case lastDaysMatch rt lowerQuery of
            Some days \<Rightarrow> range (newDate (Some (now - days * 24 * 60 * 60 * 1000))) (Some now)
          | None \<Rightarrow>
              if includes_str lowerQuery ''last week'' then
                range (newDate (Some (now - 7 * 24 * 60 * 60 * 1000))) (Some now)
              else range (newDate (Some (now - 7 * 24 * 60 * 60 * 1000))) (Some now))"

subsection \<open>The cases of the \<open>switch\<close>\<close>

definition searchResult :: "runtime \<Rightarrow> GlucoseReading \<Rightarrow> search_result" where
  "searchResult rt reading =
     \<lparr>sr_id = ''reading:'' @ r_date reading,
      sr_title = ''Glucose: '' @ numberText rt (r_value reading) @ '' '' @ r_unit reading,
      sr_text = ''Glucose reading of '' @ numberText rt (r_value reading) @ '' '' @ r_unit reading
                @ '' on '' @ localeDate rt (r_date reading)
                @ '' at '' @ localeTime rt (r_date reading)
                @ ''. Source: '' @ r_source reading,
      sr_url = ''https://healthmate.app''\<rparr>"

definition searchCase :: "runtime \<Rightarrow> HealthDataAPI \<Rightarrow> jsval \<Rightarrow> tool_args \<Rightarrow> api_call outcome" where
  "searchCase rt api userId args =
     (let query = arg args ''query'' in
      if \<not> truthy query then throwError ''Query parameter is required''
      else
        case query of
          JStr q \<Rightarrow>
            (case parseGlucoseDateQuery rt q of
               Inl e \<Rightarrow> (Inl e, [])
             | Inr (startDate, endDate) \<Rightarrow>
                 (let params = \<lparr>rp_userId = userId, rp_startDate = JStr startDate,
                                rp_endDate = JStr endDate, rp_limit = JNum 100\<rparr>
                  in case getGlucoseReadings api params of
                       Inl e \<Rightarrow> (Inl e, [ReadingsCall params])
                     | Inr readings \<Rightarrow>
                         (Inr (textResult (stringify rt (ResultsJson (map (searchResult rt) readings)))),
                          [ReadingsCall params])))
        | _ \<Rightarrow> throwError ''query.toLowerCase is not a function'')"

text \<open>
  \<open>const [type, timestamp] = id.split(':')\<close> binds the first two pieces of the split;
  \<open>timestamp\<close> is undefined when there is one piece only. (\<open>split\<close> never returns
  an empty array; the first branch below is there for totality.)
\<close>

definition fetchCase :: "runtime \<Rightarrow> HealthDataAPI \<Rightarrow> jsval \<Rightarrow> tool_args \<Rightarrow> api_call outcome" where
  "fetchCase rt api userId args =
     (let id = arg args ''id'' in
      if \<not> truthy id then throwError ''ID parameter is required''
      else
        case id of
          JStr ids \<Rightarrow>
            (case split_on CHR '':'' ids of
               [] \<Rightarrow> throwError ''Unknown type: undefined''
             | type # rest \<Rightarrow>
                 (let timestamp = (case rest of [] \<Rightarrow> None | ts # _ \<Rightarrow> Some ts) in
                  if type \<noteq> ''reading'' then throwError (''Unknown type: '' @ type)
                  else
                    (let targetDate = (case timestamp of None \<Rightarrow> None | Some ts \<Rightarrow> dateParse rt ts);
                         startDate = newDate (map_option (\<lambda>t. t - 1 * 60 * 60 * 1000) targetDate);
                         endDate = newDate (map_option (\<lambda>t. t + 1 * 60 * 60 * 1000) targetDate)
                     in
                       case toISOString rt startDate of
                         Inl e \<Rightarrow> (Inl e, [])
                       | Inr startIso \<Rightarrow>
                           (case toISOString rt endDate of
                              Inl e \<Rightarrow> (Inl e, [])
                            | Inr endIso \<Rightarrow>
                                (let params = \<lparr>rp_userId = userId, rp_startDate = JStr startIso,
                                               rp_endDate = JStr endIso, rp_limit = JNum 100\<rparr>
                                 in case getGlucoseReadings api params of
                                      Inl e \<Rightarrow> (Inl e, [ReadingsCall params])
                                    | Inr readings \<Rightarrow>
                                        (case find (\<lambda>r. Some (r_date r) = timestamp) readings of
                                           None \<Rightarrow>
                                             (Inl (JsError (''Reading not found for ID: '' @ ids) None),
                                              [ReadingsCall params])
                                         | Some reading \<Rightarrow>
                                             (Inr (textResult (stringify rt (FetchJson
                                                \<lparr>fr_id = ids,
                                                 fr_title = ''Glucose: ''
                                                            @ numberText rt (r_value reading)
                                                            @ '' '' @ r_unit reading,
                                                 fr_text = stringify rt (ReadingJson reading),
                                                 fr_url = ''https://healthmate.app'',
                                                 fr_metadata_type = ''glucose_reading'',
                                                 fr_metadata_retrieved_at =
                                                   isoFormat rt (clock rt)\<rparr>))),
                                              [ReadingsCall params])))))))
        | _ \<Rightarrow> throwError ''id.split is not a function or its return value is not iterable'')"

definition readingsCase :: "runtime \<Rightarrow> HealthDataAPI \<Rightarrow> jsval \<Rightarrow> tool_args \<Rightarrow> api_call outcome" where
  "readingsCase rt api userId args =
     (let params = \<lparr>rp_userId = userId, rp_startDate = arg args ''startDate'',
                    rp_endDate = arg args ''endDate'',
                    rp_limit = (if truthy (arg args ''limit'') then arg args ''limit''
                                else JNum 1000)\<rparr>
      in case getGlucoseReadings api params of
           Inl e \<Rightarrow> (Inl e, [ReadingsCall params])
         | Inr readings \<Rightarrow>
             (Inr (textResult (stringify rt (ReadingsJson (length readings) readings))),
              [ReadingsCall params]))"

definition latestCase :: "runtime \<Rightarrow> HealthDataAPI \<Rightarrow> jsval \<Rightarrow> api_call outcome" where
  "latestCase rt api userId =
     (case getLatestGlucose api userId of
        Inl e \<Rightarrow> (Inl e, [LatestCall userId])
      | Inr None \<Rightarrow> (Inr (textResult ''No glucose readings found for this user.''),
                     [LatestCall userId])
      | Inr (Some reading) \<Rightarrow>
          (Inr (textResult (stringify rt (ReadingJson reading))), [LatestCall userId]))"

definition statsCase :: "runtime \<Rightarrow> HealthDataAPI \<Rightarrow> jsval \<Rightarrow> tool_args \<Rightarrow> api_call outcome" where
  "statsCase rt api userId args =
     (let params = \<lparr>sp_userId = userId, sp_startDate = arg args ''startDate'',
                    sp_endDate = arg args ''endDate''\<rparr>
      in case getGlucoseStats api params of
           Inl e \<Rightarrow> (Inl e, [StatsCall params])
         | Inr None \<Rightarrow>
             (Inr (textResult ''No glucose data found for the specified time range.''),
              [StatsCall params])
         | Inr (Some stats) \<Rightarrow>
             (Inr (textResult (stringify rt (StatsJson stats))), [StatsCall params]))"

text \<open>
  The \<open>switch (name)\<close> of \<open>http-server.ts\<close> and of the OAuth server (the two bodies are
  the same statements), and the shorter one of the stdio server \<open>index.ts\<close>.
\<close>

definition toolSwitch ::
  "runtime \<Rightarrow> HealthDataAPI \<Rightarrow> jsval \<Rightarrow> string \<Rightarrow> tool_args \<Rightarrow> api_call outcome"
where
  "toolSwitch rt api userId name args =
     (if name = ''search'' then searchCase rt api userId args
      else if name = ''fetch'' then fetchCase rt api userId args
      else if name = ''get_glucose_readings'' then readingsCase rt api userId args
      else if name = ''get_latest_glucose'' then latestCase rt api userId
      else if name = ''get_glucose_stats'' then statsCase rt api userId args
      else throwError (''Unknown tool: '' @ name))"

definition toolSwitch_stdio ::
  "runtime \<Rightarrow> HealthDataAPI \<Rightarrow> jsval \<Rightarrow> string \<Rightarrow> tool_args \<Rightarrow> api_call outcome"
where
  "toolSwitch_stdio rt api userId name args =
     (if name = ''get_glucose_readings'' then readingsCase rt api userId args
      else if name = ''get_latest_glucose'' then latestCase rt api userId
      else if name = ''get_glucose_stats'' then statsCase rt api userId args
      else throwError (''Unknown tool: '' @ name))"

subsection \<open>The single-tenant handlers (\<open>http-server.ts\<close>, \<open>index.ts\<close>)\<close>

definition userIdRequired :: string where
  "userIdRequired =
     ''Error: userId is required. Either provide it in the tool call or set USER_ID environment variable.''"

text \<open>\<open>DEFAULT_USER_ID\<close> is \<open>process.env.USER_ID || ''\<close>, read once when the module loads.\<close>

definition callTool_http ::
  "runtime \<Rightarrow> HealthDataAPI \<Rightarrow> string \<Rightarrow> string \<Rightarrow> tool_args \<Rightarrow> api_call outcome"
where
  "callTool_http rt api DEFAULT_USER_ID name args =
     (let userId = (if truthy (arg args ''userId'') then arg args ''userId''
                    else JStr DEFAULT_USER_ID)
      in
        if \<not> truthy userId then (Inr (errorResult userIdRequired), [])
        else
          case toolSwitch rt api userId name args of
            (Inr result, calls) \<Rightarrow> (Inr result, calls)
          | (Inl error, calls) \<Rightarrow> (Inr (errorResult (''Error: '' @ message error)), calls))"

definition callTool_stdio ::
  "runtime \<Rightarrow> HealthDataAPI \<Rightarrow> string \<Rightarrow> string \<Rightarrow> tool_args \<Rightarrow> api_call outcome"
where
  "callTool_stdio rt api DEFAULT_USER_ID name args =
     (let userId = (if truthy (arg args ''userId'') then arg args ''userId''
                    else JStr DEFAULT_USER_ID)
      in
        if \<not> truthy userId then (Inr (errorResult userIdRequired), [])
        else
          case toolSwitch_stdio rt api userId name args of
            (Inr result, calls) \<Rightarrow> (Inr result, calls)
          | (Inl error, calls) \<Rightarrow> (Inr (errorResult (''Error: '' @ message error)), calls))"

subsection \<open>The handler of the OAuth server\<close>

text \<open>The cross mark U+274C that starts the server's error texts, in UTF-8.\<close>

definition crossMark :: string where
  "crossMark = [CHR 0xE2, CHR 0x9D, CHR 0x8C]"

definition reauthenticate :: string where
  "reauthenticate = crossMark @ '' Error: No access token available. Please re-authenticate.''"

text \<open>\<open>error.response?.data?.error || error.message || 'Unknown error'\<close>\<close>

definition errorMessage :: "js_exn \<Rightarrow> string" where
  "errorMessage error =
     (case response_error error of
        Some e \<Rightarrow> if e \<noteq> [] then e
                  else if message error \<noteq> [] then message error else ''Unknown error''
      | None \<Rightarrow> if message error \<noteq> [] then message error else ''Unknown error'')"

text \<open>
  \<open>store\<close> is the session context of the execution the handler runs in.
  \<open>mkApi accessToken\<close> is \<open>new HealthDataAPI(BACKEND_URL, accessToken, true)\<close>; each
  collaborator call is recorded with the token of the client that made it.
\<close>

definition callTool_oauth ::
  "runtime \<Rightarrow> (string \<Rightarrow> HealthDataAPI) \<Rightarrow> jsval \<Rightarrow> server_state \<Rightarrow> string \<Rightarrow> tool_args
     \<Rightarrow> (string \<times> api_call) outcome"
where
  "callTool_oauth rt mkApi store st name args =
     (case getCurrentAccessToken store st of
        None \<Rightarrow> (Inr (errorResult reauthenticate), [])
      | Some accessToken \<Rightarrow>
          if accessToken = [] then (Inr (errorResult reauthenticate), [])
          else
            (let userId = JStr ''oauth-user'';
                 api = mkApi accessToken
             in case toolSwitch rt api userId name args of
                  (Inr result, calls) \<Rightarrow> (Inr result, map (Pair accessToken) calls)
                | (Inl error, calls) \<Rightarrow>
                    (Inr (errorResult (crossMark @ '' Error: '' @ errorMessage error)),
                     map (Pair accessToken) calls)))"

section \<open>Tool descriptors\<close>

record property_schema =
  p_type :: string
  p_description :: string

record input_schema =
  i_type :: string
  i_properties :: "(string \<times> property_schema) list"
  i_required :: "string list"

record Tool =
  t_name :: string
  t_description :: string
  t_inputSchema :: input_schema

definition userIdProperty :: "string \<Rightarrow> string \<times> property_schema" where
  "userIdProperty DEFAULT_USER_ID =
     (''userId'',
      \<lparr>p_type = ''string'',
       p_description = ''User identifier. Defaults to ''
         @ (if DEFAULT_USER_ID \<noteq> [] then DEFAULT_USER_ID else ''configured user'')
         @ '' if not specified.''\<rparr>)"

definition searchDescription :: string where
  "searchDescription =
     ''Search through glucose/blood sugar readings. Query can include date ranges or natural language.''"

definition queryProperty :: "string \<times> property_schema" where
  \<open>queryProperty =
     (''query'',
      \<lparr>p_type = ''string'',
       p_description =
         ''Search query for glucose data. Can include keywords like "today", "yesterday", ''
         @ ''"last week", "last 30 days", or specific dates.''\<rparr>)\<close>

definition fetchDescription :: string where
  "fetchDescription =
     ''Retrieve complete details for a specific glucose reading by ID. ''
     @ ''Use this after finding readings with the search tool.''"

definition idProperty :: "string \<times> property_schema" where
  \<open>idProperty =
     (''id'',
      \<lparr>p_type = ''string'',
       p_description =
         ''The unique identifier for the reading. Format: "reading:timestamp" ''
         @ ''(e.g., "reading:2024-01-15T10:30:00Z")''\<rparr>)\<close>

definition readingsDescription :: string where
  "readingsDescription =
     ''Get glucose/blood sugar readings for a user within a date range. Returns glucose values in mg/dL with timestamps and sources.''"

definition readingsProperties :: "(string \<times> property_schema) list" where
  "readingsProperties =
     [(''startDate'',
       \<lparr>p_type = ''string'',
        p_description = ''Start date in ISO 8601 format (e.g., 2025-10-01T00:00:00Z). Optional.''\<rparr>),
      (''endDate'',
       \<lparr>p_type = ''string'',
        p_description = ''End date in ISO 8601 format (e.g., 2025-10-22T23:59:59Z). Optional.''\<rparr>),
      (''limit'',
       \<lparr>p_type = ''number'',
        p_description = ''Maximum number of readings to return (default: 1000)''\<rparr>)]"

definition latestDescription :: string where
  "latestDescription =
     ''Get the most recent glucose/blood sugar reading for a user. Returns value, unit, timestamp, and source.''"

definition statsDescription :: string where
  "statsDescription =
     ''Get glucose statistics (count, average, min, max) for a user within a date range. Useful for understanding glucose trends and patterns.''"

definition statsProperties :: "(string \<times> property_schema) list" where
  "statsProperties =
     [(''startDate'',
       \<lparr>p_type = ''string'', p_description = ''Start date in ISO 8601 format. Optional.''\<rparr>),
      (''endDate'',
       \<lparr>p_type = ''string'', p_description = ''End date in ISO 8601 format. Optional.''\<rparr>)]"

definition objectSchema :: "(string \<times> property_schema) list \<Rightarrow> string list \<Rightarrow> input_schema" where
  "objectSchema props req = \<lparr>i_type = ''object'', i_properties = props, i_required = req\<rparr>"

text \<open>
  The array literal of \<open>const TOOLS\<close> in \<open>http-server.ts\<close>; its texts quote
  \<open>DEFAULT_USER_ID\<close>, which is read from the environment when the module loads.
\<close>

definition TOOLS :: "string \<Rightarrow> Tool list" where
  "TOOLS DEFAULT_USER_ID =
     [\<lparr>t_name = ''search'', t_description = searchDescription,
       t_inputSchema =
         objectSchema [queryProperty, userIdProperty DEFAULT_USER_ID] [''query'']\<rparr>,
      \<lparr>t_name = ''fetch'', t_description = fetchDescription,
       t_inputSchema = objectSchema [idProperty, userIdProperty DEFAULT_USER_ID] [''id'']\<rparr>,
      \<lparr>t_name = ''get_glucose_readings'', t_description = readingsDescription,
       t_inputSchema =
         objectSchema (userIdProperty DEFAULT_USER_ID # readingsProperties) []\<rparr>,
      \<lparr>t_name = ''get_latest_glucose'', t_description = latestDescription,
       t_inputSchema = objectSchema [userIdProperty DEFAULT_USER_ID] []\<rparr>,
      \<lparr>t_name = ''get_glucose_stats'', t_description = statsDescription,
       t_inputSchema = objectSchema (userIdProperty DEFAULT_USER_ID # statsProperties) []\<rparr>]"

subsection \<open>Arrays as objects\<close>

text \<open>
  A descriptor array is an object: it is made at some moment and is then known by
  its reference. The heap holds the descriptor arrays made so far; a reference is
  the position of an array in it.
\<close>

type_synonym heap = "Tool list list"

definition alloc :: "Tool list \<Rightarrow> heap \<Rightarrow> nat \<times> heap" where
  "alloc v h = (length h, h @ [v])"

definition deref :: "heap \<Rightarrow> nat \<Rightarrow> Tool list option" where
  "deref h r = (if r < length h then Some (h ! r) else None)"

subsection \<open>The module of \<open>http-server.ts\<close>\<close>

text \<open>
  What the module holds: the array \<open>TOOLS\<close>, made by the array literal when the
  module loads, and the \<open>transports\<close> map.
\<close>

record http_module =
  hm_heap :: heap
  hm_TOOLS :: nat
  hm_transports :: "SSEServerTransport js_map"

definition http_load :: "string \<Rightarrow> http_module" where
  "http_load DEFAULT_USER_ID =
     (let (r, h) = alloc (TOOLS DEFAULT_USER_ID) []
      in \<lparr>hm_heap = h, hm_TOOLS = r, hm_transports = []\<rparr>)"

text \<open>The \<open>ListToolsRequestSchema\<close> handler: \<open>return {tools: TOOLS}\<close>.\<close>

definition listTools_http :: "http_module \<Rightarrow> nat \<times> http_module" where
  "listTools_http m = (hm_TOOLS m, m)"

text \<open>
  What each handler of the module does to the module: listing and \<open>GET /tools\<close>
  read \<open>TOOLS\<close>; a tool call and a posted message write nothing; opening a stream
  does \<open>transports.set\<close> and the transport's \<open>onclose\<close> does \<open>transports.delete\<close>.
\<close>

datatype http_request =
    HListTools
  | HGetTools
  | HCallTool string tool_args
  | HPostMessage jsval
  | HSse SSEServerTransport
  | HTransportClosed string

fun http_handle :: "http_request \<Rightarrow> http_module \<Rightarrow> http_module" where
  "http_handle HListTools m = snd (listTools_http m)"
| "http_handle HGetTools m = m"
| "http_handle (HCallTool name args) m = m"
| "http_handle (HPostMessage sid) m = m"
| "http_handle (HSse t) m = m\<lparr>hm_transports := map_set (sessionId t) t (hm_transports m)\<rparr>"
| "http_handle (HTransportClosed sid) m =
     m\<lparr>hm_transports := snd (map_delete sid (hm_transports m))\<rparr>"

fun run_http :: "http_request list \<Rightarrow> http_module \<Rightarrow> http_module" where
  "run_http [] m = m"
| "run_http (q # qs) m = run_http qs (http_handle q m)"

subsection \<open>The module of the OAuth server\<close>

text \<open>The array literal inside the \<open>ListToolsRequestSchema\<close> handler.\<close>

definition toolsLiteral :: "Tool list" where
  "toolsLiteral =
     [\<lparr>t_name = ''search'', t_description = searchDescription,
       t_inputSchema = objectSchema [queryProperty] [''query'']\<rparr>,
      \<lparr>t_name = ''fetch'', t_description = fetchDescription,
       t_inputSchema = objectSchema [idProperty] [''id'']\<rparr>,
      \<lparr>t_name = ''get_glucose_readings'', t_description = readingsDescription,
       t_inputSchema = objectSchema readingsProperties []\<rparr>,
      \<lparr>t_name = ''get_latest_glucose'', t_description = latestDescription,
       t_inputSchema = objectSchema [] []\<rparr>,
      \<lparr>t_name = ''get_glucose_stats'', t_description = statsDescription,
       t_inputSchema = objectSchema statsProperties []\<rparr>]"

text \<open>
  The module holds the two maps and no descriptor array: the handler evaluates
  \<open>const tools: Tool[] = [...]\<close> in its body, which makes a new array each time
  the handler runs, and returns that array.
\<close>

record oauth_module =
  om_heap :: heap
  om_maps :: server_state

definition oauth_load :: oauth_module where
  "oauth_load = \<lparr>om_heap = [], om_maps = \<lparr>transports = [], sessionTokens = []\<rparr>\<rparr>"

definition listTools_oauth :: "oauth_module \<Rightarrow> nat \<times> oauth_module" where
  "listTools_oauth m =
     (let (tools, h) = alloc toolsLiteral (om_heap m) in (tools, m\<lparr>om_heap := h\<rparr>))"

text \<open>
  What each handler does to the module: a tool call reads the session context and
  \<open>sessionTokens\<close> and writes nothing; the other steps are those of \<open>step\<close>.
\<close>

datatype oauth_request =
    OListTools
  | OCallTool jsval string tool_args
  | OStep event

fun oauth_handle :: "oauth_request \<Rightarrow> oauth_module \<Rightarrow> oauth_module" where
  "oauth_handle OListTools m = snd (listTools_oauth m)"
| "oauth_handle (OCallTool store name args) m = m"
| "oauth_handle (OStep e) m = m\<lparr>om_maps := step e (om_maps m)\<rparr>"

fun run_oauth :: "oauth_request list \<Rightarrow> oauth_module \<Rightarrow> oauth_module" where
  "run_oauth [] m = m"
| "run_oauth (q # qs) m = run_oauth qs (oauth_handle q m)"

section \<open>Example inputs\<close>

text \<open>Concrete values at which the theorems below are instantiated.\<close>

definition example_reading :: GlucoseReading where
  "example_reading =
     \<lparr>r_value = 100, r_unit = ''mg/dL'', r_date = ''2024-01-15T10:30:00Z'', r_source = ''cgm''\<rparr>"

definition example_api :: HealthDataAPI where
  "example_api =
     \<lparr>getGlucoseReadings = (\<lambda>p. Inr [example_reading]),
      getLatestGlucose = (\<lambda>u. Inr (Some example_reading)),
      getGlucoseStats = (\<lambda>p. Inr None)\<rparr>"

definition example_mkApi :: "string \<Rightarrow> HealthDataAPI" where
  "example_mkApi accessToken = example_api"

text \<open>
  A runtime whose date parser accepts the full timestamp of the example reading and
  nothing else (15 January 2024, 10:30 UTC is 1705314600000 ms).
\<close>

definition example_runtime :: runtime where
  "example_runtime =
     \<lparr>clock = 1705400000000,
      dateParse = (\<lambda>s. if s = ''2024-01-15T10:30:00Z'' then Some 1705314600000 else None),
      isoFormat = (\<lambda>t. ''iso''),
      localMidnight = (\<lambda>t. t - t mod 86400000),
      localeDate = (\<lambda>s. s),
      localeTime = (\<lambda>s. s),
      numberText = (\<lambda>x. ''n''),
      stringify = (\<lambda>p. ''json''),
      toLowerCase = (\<lambda>s. s),
      lastDaysMatch = (\<lambda>s. None)\<rparr>"

definition example_transport :: "string \<Rightarrow> SSEServerTransport" where
  "example_transport sid = \<lparr>sessionId = sid, stream = length sid\<rparr>"

definition example_state :: server_state where
  "example_state =
     \<lparr>transports = [(''s1'', example_transport ''s1''), (''s2'', example_transport ''s2'')],
      sessionTokens = [(''s1'', ''token-1''), (''s2'', ''token-2'')]\<rparr>"

text \<open>
  A third client opens a stream with the token \<open>token-3\<close> and goes away while the
  introspection of its token is pending.
\<close>

definition early_close :: sse_server where
  "early_close =
     run_sse [AfterConnect (example_transport ''s3''), CloseEmitted ''s3'',
              AfterIntrospect (example_transport ''s3'') ''token-3'']
       \<lparr>maps = example_state, attached = []\<rparr>"

definition example_sdk :: "SSEServerTransport \<Rightarrow> jsval \<Rightarrow> unit \<Rightarrow> sdk_result" where
  "example_sdk transport store body = SdkDone"

definition example_sdk' :: "SSEServerTransport \<Rightarrow> sdk_result" where
  "example_sdk' transport = SdkDone"

section \<open>Auxiliary facts\<close>

lemma delete_absent: "map_of m k = None \<Longrightarrow> AList.delete k m = m"
  by (induction m) (auto split: if_splits)

lemma step_frame:
  "\<not> writes_session sid e \<Longrightarrow>
     map_of (transports (step e st)) sid = map_of (transports st) sid \<and>
     map_of (sessionTokens (step e st)) sid = map_of (sessionTokens st) sid"
  by (cases e)
     (auto simp: sseRegister_def sseStoreToken_def oauthCallbackStore_def onClose_def onError_def
        map_set_def map_delete_def update_conv' delete_conv' Let_def)

lemma run_events_frame:
  "\<forall>e\<in>set es. \<not> writes_session sid e \<Longrightarrow>
     map_of (transports (run_events es st)) sid = map_of (transports st) sid \<and>
     map_of (sessionTokens (run_events es st)) sid = map_of (sessionTokens st) sid"
proof (induction es arbitrary: st)
  case Nil
  then show ?case by simp
next
  case (Cons e es)
  then show ?case using step_frame[of sid e st] by simp
qed

text \<open>
  The \<open>/sse\<close> handler, run to its end, is the two steps \<open>SseRegister\<close> and
  \<open>SseStoreToken\<close>; without a bearer token it changes nothing.
\<close>

lemma sseConnect_steps:
  "accessToken \<noteq> [] \<Longrightarrow>
     sseConnect (Some (''Bearer '' @ accessToken)) transport True st
       = (SseEstablished (sessionId transport),
          run_events [SseRegister transport, SseStoreToken (sessionId transport) accessToken] st)"
  by (simp add: sseConnect_def bearerToken_def)

lemma sseConnect_unauthorized:
  "sseConnect None transport connect_ok st = (SseUnauthorized, st)"
  "sseConnect (Some ''Bearer '') transport connect_ok st = (SseUnauthorized, st)"
  by (simp_all add: sseConnect_def bearerToken_def)

lemma closed_entries:
  "map_of (transports (snd (onClose sid st))) sid = None"
  "map_of (sessionTokens (snd (onClose sid st))) sid = None"
  "map_of (transports (snd (onError sid st))) sid = None"
  "map_of (sessionTokens (snd (onError sid st))) sid = None"
  by (simp_all add: onClose_def onError_def map_delete_def delete_conv' Let_def)

lemma token_used:
  "fst ` set (snd (callTool_oauth rt mkApi store st name args))
     \<subseteq> {tok. getCurrentAccessToken store st = Some tok}"
  by (auto simp: callTool_oauth_def Let_def split: option.splits prod.splits sum.splits)

lemma callTool_oauth_token_only:
  "getCurrentAccessToken store st' = getCurrentAccessToken store st \<Longrightarrow>
     callTool_oauth rt mkApi store st' name args = callTool_oauth rt mkApi store st name args"
  by (simp add: callTool_oauth_def)

lemma toolSwitch_unknown:
  "name \<notin> {''search'', ''fetch'', ''get_glucose_readings'', ''get_latest_glucose'',
            ''get_glucose_stats''}
   \<Longrightarrow> toolSwitch rt api userId name args = throwError (''Unknown tool: '' @ name)"
  by (simp add: toolSwitch_def)

lemma split_on_first:
  "c \<notin> set xs \<Longrightarrow> split_on c (xs @ c # ys) = xs # split_on c ys"
  by (induction xs) auto

lemma split_on_head: "\<exists>p ps. split_on c ys = p # ps \<and> c \<notin> set p"
  by (induction ys) (auto split: list.splits)

lemma split_reading:
  "\<exists>p ps. split_on CHR '':'' (''reading:'' @ ts) = ''reading'' # p # ps \<and> CHR '':'' \<notin> set p"
proof -
  have "split_on CHR '':'' (''reading'' @ CHR '':'' # ts) = ''reading'' # split_on CHR '':'' ts"
    by (rule split_on_first) simp
  then show ?thesis using split_on_head[of "CHR '':''" ts] by auto
qed

text \<open>
  A timestamp with a colon in it is cut at that colon by the split, so no reading
  dated with the whole timestamp is ever found.
\<close>

lemma fetchCase_colon_throws:
  assumes colon: "CHR '':'' \<in> set ts"
    and exact: "\<And>p rs r. getGlucoseReadings api p = Inr rs \<Longrightarrow> r \<in> set rs \<Longrightarrow> r_date r = ts"
  shows "\<exists>e calls. fetchCase rt api userId [''id'' \<mapsto> JStr (''reading:'' @ ts)] = (Inl e, calls)"
proof -
  obtain p ps where sp: "split_on CHR '':'' (''reading:'' @ ts) = ''reading'' # p # ps"
    and nc: "CHR '':'' \<notin> set p"
    using split_reading by blast
  from colon nc have neq: "p \<noteq> ts" by auto
  have nf: "find (\<lambda>r. Some (r_date r) = Some p) rs = None"
    if "getGlucoseReadings api q = Inr rs" for q rs
    using exact[OF that] neq by (auto simp: find_None_iff)
  have sp': "split_on CHR '':'' (CHR ''r'' # CHR ''e'' # CHR ''a'' # CHR ''d'' # CHR ''i''
               # CHR ''n'' # CHR ''g'' # CHR '':'' # ts) = ''reading'' # p # ps"
    using sp by simp
  show ?thesis
    unfolding fetchCase_def arg_def throwError_def Let_def
    using nf
    by (simp add: sp' del: split_on.simps split: sum.splits option.splits)
qed

section \<open>Credential isolation\<close>

text \<open>
  Claim C1. Let \<open>sid\<close> be a session id registered in \<open>transports\<close> (ids are the SDK's
  UUIDs, so not the empty string). A message addressed to \<open>sid\<close> is handed to the
  transport registered for \<open>sid\<close>, inside a session context bound to \<open>sid\<close>. Whatever
  steps of other sessions the event loop runs in between (streams opening, tokens
  being stored, streams closing, messages of any session), the access token read in
  that context is the entry of \<open>sessionTokens\<close> for \<open>sid\<close> at routing time; every
  collaborator call of a tool invocation in that context is made with that token;
  and the outcome of the invocation is the same in any two states that agree on the
  entry of \<open>sid\<close>, whatever they hold for other sessions.
\<close>

theorem credential_isolation:
  assumes "map_of (transports st) sid = Some transport" and "sid \<noteq> []"
    and "\<forall>e\<in>set es. \<not> writes_session sid e"
  shows "postMessage_oauth handlePostMessage st (JStr sid) (Some body)
           = Inr (postCatch_oauth (handlePostMessage transport (JStr sid) body))
       \<and> getCurrentAccessToken (JStr sid) (run_events es st) = map_of (sessionTokens st) sid
       \<and> fst ` set (snd (callTool_oauth rt mkApi (JStr sid) (run_events es st) name args))
           \<subseteq> {tok. map_of (sessionTokens st) sid = Some tok}
       \<and> (map_of (sessionTokens st') sid = map_of (sessionTokens st) sid \<longrightarrow>
            callTool_oauth rt mkApi (JStr sid) st' name args
              = callTool_oauth rt mkApi (JStr sid) st name args)"
proof -
  have route: "postMessage_oauth handlePostMessage st (JStr sid) (Some body)
                 = Inr (postCatch_oauth (handlePostMessage transport (JStr sid) body))"
    using assms(1,2) by (simp add: postMessage_oauth_def map_get_def)
  have tok: "getCurrentAccessToken (JStr sid) s = map_of (sessionTokens s) sid" for s
    using assms(2) by (simp add: getCurrentAccessToken_def map_get_def)
  have later: "getCurrentAccessToken (JStr sid) (run_events es st) = map_of (sessionTokens st) sid"
    using run_events_frame[OF assms(3), of st] by (simp add: tok)
  have used: "fst ` set (snd (callTool_oauth rt mkApi (JStr sid) (run_events es st) name args))
                \<subseteq> {tok. map_of (sessionTokens st) sid = Some tok}"
    using token_used[of rt mkApi "JStr sid" "run_events es st" name args] by (simp add: later)
  have same: "callTool_oauth rt mkApi (JStr sid) st' name args
                = callTool_oauth rt mkApi (JStr sid) st name args"
    if "map_of (sessionTokens st') sid = map_of (sessionTokens st) sid"
    by (rule callTool_oauth_token_only) (simp add: tok that)
  from route later used same show ?thesis by blast
qed

theorem credential_isolation_witness:
  "postMessage_oauth example_sdk example_state (JStr ''s1'') (Some ()) = Inr SdkReplied
 \<and> getCurrentAccessToken (JStr ''s1'')
      (run_events [SseRegister (example_transport ''s3''), SseStoreToken ''s3'' ''token-3'',
                   Message (JStr ''s2''), StreamClose ''s2'', OAuthCallback ''u9'' ''token-9'']
         example_state)
     = Some ''token-1''"
proof -
  have a: "map_of (transports example_state) ''s1'' = Some (example_transport ''s1'')"
    by (simp add: example_state_def)
  have b: "''s1'' \<noteq> []" by simp
  have c: "\<forall>e\<in>set [SseRegister (example_transport ''s3''), SseStoreToken ''s3'' ''token-3'',
                     Message (JStr ''s2''), StreamClose ''s2'', OAuthCallback ''u9'' ''token-9''].
             \<not> writes_session ''s1'' e"
    by (simp add: example_transport_def)
  show ?thesis
    using credential_isolation[OF a b c, of example_sdk "()"]
    by (simp add: example_state_def example_sdk_def postCatch_oauth_def)
qed

section \<open>Rejected messages\<close>

text \<open>
  Claim C3. A POST to the message endpoint whose \<open>sessionId\<close> parameter is absent
  is answered with status 400. The handlers test absence with \<open>!sessionId\<close>, so an
  empty parameter is answered in the same way. A \<open>sessionId\<close> that is given and has
  no registered transport is answered with status 404 and a body that says that no
  connection is active for the session. This holds in the OAuth server and in the
  single-tenant HTTP server; in each case the handler returns with that answer
  (\<open>Inr\<close>) and does not throw.
\<close>

theorem message_rejection:
  "postMessage_oauth handlePostMessage st JUndefined body
     = Inr (Respond 400 (JsonError ''sessionId query parameter is required''))
 \<and> postMessage_http handlePostMessage' ts JUndefined
     = Inr (Respond 400 (PlainText ''Missing sessionId parameter''))
 \<and> (\<not> truthy sid \<longrightarrow>
      postMessage_oauth handlePostMessage st sid body
        = Inr (Respond 400 (JsonError ''sessionId query parameter is required''))
    \<and> postMessage_http handlePostMessage' ts sid
        = Inr (Respond 400 (PlainText ''Missing sessionId parameter'')))
 \<and> (truthy sid \<and> map_get (transports st) sid = None \<longrightarrow>
      postMessage_oauth handlePostMessage st sid body
        = Inr (Respond 404 (JsonError
            ''No active SSE connection for this session. Please connect to /sse first.'')))
 \<and> (truthy sid \<and> map_get ts sid = None \<longrightarrow>
      postMessage_http handlePostMessage' ts sid
        = Inr (Respond 404 (SessionNotFoundBody ''Session not found'' sid (map_keys ts))))"
  by (auto simp: postMessage_oauth_def postMessage_http_def)

theorem message_rejection_witness:
  "postMessage_oauth example_sdk example_state JUndefined (Some ())
     = Inr (Respond 400 (JsonError ''sessionId query parameter is required''))
 \<and> postMessage_http example_sdk' (transports example_state) JUndefined
     = Inr (Respond 400 (PlainText ''Missing sessionId parameter''))
 \<and> postMessage_oauth example_sdk example_state (JStr ''s7'') (Some ())
     = Inr (Respond 404 (JsonError
         ''No active SSE connection for this session. Please connect to /sse first.''))
 \<and> postMessage_http example_sdk' (transports example_state) (JStr ''s7'')
     = Inr (Respond 404 (SessionNotFoundBody ''Session not found'' (JStr ''s7'') [''s1'', ''s2'']))"
  using message_rejection[of example_sdk example_state "Some ()" example_sdk'
          "transports example_state" "JStr ''s7''"]
  by (simp add: example_state_def map_get_def map_keys_def)

text \<open>
  The handler of the OAuth server is not free of exceptions altogether: with a
  registered session and an undefined request body, the log statement before the
  \<open>try\<close> throws.
\<close>

lemma postMessage_oauth_may_throw:
  "postMessage_oauth example_sdk example_state (JStr ''s1'') None
     = Inl (JsError ''Cannot read properties of undefined (reading 'substring')'' None)"
  by (simp add: postMessage_oauth_def example_state_def map_get_def)

section \<open>Teardown\<close>

text \<open>
  What the two listeners do when they run: they remove the session id from both
  maps; a second run, of either listener, changes nothing and both \<open>delete\<close> calls
  report that there was no entry; entries of other sessions are kept.
\<close>

lemma listener_teardown:
  "map_of (transports (snd (onClose sid st))) sid = None
 \<and> map_of (sessionTokens (snd (onClose sid st))) sid = None
 \<and> onClose sid (snd (onClose sid st)) = ((False, False), snd (onClose sid st))
 \<and> onError sid (snd (onClose sid st)) = ((False, False), snd (onClose sid st))
 \<and> onError sid st = onClose sid st
 \<and> fst (onClose sid st) = (map_of (transports st) sid \<noteq> None, map_of (sessionTokens st) sid \<noteq> None)
 \<and> (map_of (transports st) sid = None \<and> map_of (sessionTokens st) sid = None
      \<longrightarrow> onClose sid st = ((False, False), st))
 \<and> (sid' \<noteq> sid \<longrightarrow>
       map_of (transports (snd (onClose sid st))) sid' = map_of (transports st) sid'
     \<and> map_of (sessionTokens (snd (onClose sid st))) sid' = map_of (sessionTokens st) sid')"
  by (auto simp: onClose_def onError_def map_delete_def delete_conv' delete_idem delete_absent
        Let_def)

text \<open>
  A stream that closes after its listeners were attached is torn down, whatever
  the state was.
\<close>

lemma close_after_setup:
  "sessionId transport = sid \<Longrightarrow>
     map_of (transports (maps (run_sse
        [AfterConnect transport, AfterIntrospect transport accessToken, CloseEmitted sid] p))) sid
       = None
   \<and> map_of (sessionTokens (maps (run_sse
        [AfterConnect transport, AfterIntrospect transport accessToken, CloseEmitted sid] p))) sid
       = None"
  by (simp add: sseAfterConnect_def sseAfterIntrospect_def emitClose_def onClose_def
        map_delete_def delete_conv' Let_def)

text \<open>
  Claim C7 fails on the code. The listeners are attached in the last piece of the
  \<open>/sse\<close> handler, after \<open>transports.set\<close> and after the \<open>await\<close> of the token
  introspection. When the stream of a session closes before that piece has run, no
  listener runs for the close: the session id stays in \<open>transports\<close>, and the piece
  that runs afterwards adds it to \<open>sessionTokens\<close>. With the clients \<open>s1\<close> and \<open>s2\<close>
  connected, the stream of a third client \<open>s3\<close> that closes during the
  introspection leaves both entries of \<open>s3\<close> in the maps for good.
\<close>

theorem close_during_setup_leaks:
  "maps early_close
     = \<lparr>transports = [(''s1'', example_transport ''s1''), (''s2'', example_transport ''s2''),
                      (''s3'', example_transport ''s3'')],
        sessionTokens = [(''s1'', ''token-1''), (''s2'', ''token-2''), (''s3'', ''token-3'')]\<rparr>
 \<and> map_of (transports (maps early_close)) ''s3'' = Some (example_transport ''s3'')
 \<and> map_of (sessionTokens (maps early_close)) ''s3'' = Some ''token-3''
 \<and> maps (emitClose ''s3'' (run_sse [AfterConnect (example_transport ''s3'')]
            \<lparr>maps = example_state, attached = []\<rparr>))
     = maps (run_sse [AfterConnect (example_transport ''s3'')]
            \<lparr>maps = example_state, attached = []\<rparr>)"
  by (simp add: early_close_def sseAfterConnect_def sseAfterIntrospect_def emitClose_def
        sseRegister_def sseStoreToken_def map_set_def example_state_def example_transport_def)

section \<open>After the close\<close>

text \<open>
  Once a listener has run for \<open>sid\<close>, a message addressed to \<open>sid\<close> is answered with
  status 404, also after later steps of other sessions, and a stream registered
  anew under the same id reads no token until its own is stored.
\<close>

lemma after_listener_rejection:
  assumes "sid \<noteq> []" and "\<forall>e\<in>set es. \<not> writes_session sid e" and "sessionId transport' = sid"
  shows "postMessage_oauth handlePostMessage (run_events es (snd (onClose sid st))) (JStr sid) body
           = Inr (Respond 404 (JsonError
               ''No active SSE connection for this session. Please connect to /sse first.''))
       \<and> postMessage_oauth handlePostMessage (run_events es (snd (onError sid st))) (JStr sid) body
           = Inr (Respond 404 (JsonError
               ''No active SSE connection for this session. Please connect to /sse first.''))
       \<and> map_get (transports (sseRegister transport' (run_events es (snd (onClose sid st)))))
           (JStr sid) = Some transport'
       \<and> getCurrentAccessToken (JStr sid)
           (sseRegister transport' (run_events es (snd (onClose sid st)))) = None
       \<and> getCurrentAccessToken (JStr sid)
           (sseStoreToken sid accessToken'
              (sseRegister transport' (run_events es (snd (onClose sid st))))) = Some accessToken'"
proof -
  let ?c = "run_events es (snd (onClose sid st))"
  let ?e = "run_events es (snd (onError sid st))"
  have c: "map_of (transports ?c) sid = None" "map_of (sessionTokens ?c) sid = None"
    using run_events_frame[OF assms(2), of "snd (onClose sid st)"] by (simp_all add: closed_entries)
  have e: "map_of (transports ?e) sid = None"
    using run_events_frame[OF assms(2), of "snd (onError sid st)"] by (simp add: closed_entries)
  show ?thesis
    using assms(1,3) c e
    by (simp add: postMessage_oauth_def getCurrentAccessToken_def map_get_def sseRegister_def
          sseStoreToken_def map_set_def update_conv')
qed

lemma postCatch_oauth_not_404: "postCatch_oauth r \<noteq> Respond 404 b"
  by (cases r) (auto simp: postCatch_oauth_def)

text \<open>
  Claim C8 fails on the code, by the defect of C7. After the stream of \<open>s3\<close> has
  closed during the introspection of its token, a message addressed to \<open>s3\<close> is not
  answered with status 404: the handler finds the transport and hands the message
  to it, and the answer is what the transport's \<open>handlePostMessage\<close> makes of it.
  The token of the closed session can still be read in the session context of
  \<open>s3\<close>, and a stream registered anew under that id reads the old token until its
  own is stored.
\<close>

theorem message_after_early_close:
  "postMessage_oauth handlePostMessage (maps early_close) (JStr ''s3'') (Some body)
     = Inr (postCatch_oauth (handlePostMessage (example_transport ''s3'') (JStr ''s3'') body))
 \<and> postMessage_oauth handlePostMessage (maps early_close) (JStr ''s3'') (Some body)
     \<noteq> Inr (Respond 404 (JsonError
         ''No active SSE connection for this session. Please connect to /sse first.''))
 \<and> getCurrentAccessToken (JStr ''s3'') (maps early_close) = Some ''token-3''
 \<and> getCurrentAccessToken (JStr ''s3'')
      (sseRegister \<lparr>sessionId = ''s3'', stream = 99\<rparr> (maps early_close)) = Some ''token-3''"
proof -
  have m: "maps early_close
     = \<lparr>transports = [(''s1'', example_transport ''s1''), (''s2'', example_transport ''s2''),
                      (''s3'', example_transport ''s3'')],
        sessionTokens = [(''s1'', ''token-1''), (''s2'', ''token-2''), (''s3'', ''token-3'')]\<rparr>"
    by (simp add: early_close_def sseAfterConnect_def sseAfterIntrospect_def emitClose_def
          sseRegister_def sseStoreToken_def map_set_def example_state_def example_transport_def)
  have route: "postMessage_oauth handlePostMessage (maps early_close) (JStr ''s3'') (Some body)
     = Inr (postCatch_oauth (handlePostMessage (example_transport ''s3'') (JStr ''s3'') body))"
    by (simp add: m postMessage_oauth_def map_get_def)
  have tok: "getCurrentAccessToken (JStr ''s3'') (maps early_close) = Some ''token-3''"
    by (simp add: m getCurrentAccessToken_def map_get_def)
  have again: "getCurrentAccessToken (JStr ''s3'')
      (sseRegister \<lparr>sessionId = ''s3'', stream = 99\<rparr> (maps early_close)) = Some ''token-3''"
    by (simp add: m getCurrentAccessToken_def map_get_def sseRegister_def)
  show ?thesis
    using route tok again postCatch_oauth_not_404 by simp
qed

section \<open>Tool invocation\<close>

text \<open>
  Claim C4, as amended. Let \<open>name\<close> be none of the five tool names. If the call
  passes the handler's first guard (a user id is given or configured, in the
  single-tenant HTTP server; an access token is found for the session, in the OAuth
  server), the handler returns a result with \<open>isError\<close> true and one text block,
  which reads \<open>Error: Unknown tool: name\<close> in the single-tenant server and the same
  after a cross mark and a space in the OAuth server, and it calls the collaborator
  not at all. In every case the handler returns a result and does not throw.
\<close>

theorem unknown_tool:
  assumes "name \<notin> {''search'', ''fetch'', ''get_glucose_readings'', ''get_latest_glucose'',
                     ''get_glucose_stats''}"
  shows "(truthy (arg args ''userId'') \<or> DEFAULT_USER_ID \<noteq> [] \<longrightarrow>
            callTool_http rt api DEFAULT_USER_ID name args
              = (Inr \<lparr>content = [\<lparr>c_type = ''text'',
                                   c_text = ''Error: Unknown tool: '' @ name\<rparr>],
                      isError = Some True\<rparr>, []))
       \<and> (getCurrentAccessToken store st = Some accessToken \<and> accessToken \<noteq> [] \<longrightarrow>
            callTool_oauth rt mkApi store st name args
              = (Inr \<lparr>content = [\<lparr>c_type = ''text'',
                                   c_text = crossMark @ '' Error: Unknown tool: '' @ name\<rparr>],
                      isError = Some True\<rparr>, []))
       \<and> (\<exists>r. fst (callTool_http rt api DEFAULT_USER_ID name args) = Inr r)
       \<and> (\<exists>r. fst (callTool_oauth rt mkApi store st name args) = Inr r)"
  using toolSwitch_unknown[OF assms]
  by (auto simp: callTool_http_def callTool_oauth_def throwError_def errorMessage_def
        errorResult_def Let_def split: option.splits)

theorem unknown_tool_witness:
  "callTool_http example_runtime example_api ''lucas@example.com'' ''bogus'' Map.empty
     = (Inr \<lparr>content = [\<lparr>c_type = ''text'', c_text = ''Error: Unknown tool: bogus''\<rparr>],
             isError = Some True\<rparr>, [])
 \<and> callTool_oauth example_runtime example_mkApi (JStr ''s1'') example_state ''bogus'' Map.empty
     = (Inr \<lparr>content = [\<lparr>c_type = ''text'',
                          c_text = crossMark @ '' Error: Unknown tool: bogus''\<rparr>],
             isError = Some True\<rparr>, [])"
proof -
  have a: "''bogus'' \<notin> {''search'', ''fetch'', ''get_glucose_readings'', ''get_latest_glucose'',
                          ''get_glucose_stats''}"
    by simp
  have b: "getCurrentAccessToken (JStr ''s1'') example_state = Some ''token-1''"
    by (simp add: getCurrentAccessToken_def map_get_def example_state_def)
  show ?thesis
    using unknown_tool[OF a, of Map.empty "''lucas@example.com''" example_runtime example_api
            "JStr ''s1''" example_state "''token-1''" example_mkApi] b
    by simp
qed

text \<open>
  The claim as it was stated fails: for the name \<open>bogus\<close> the text block is not
  \<open>Unknown tool: bogus\<close>; the \<open>catch\<close> block of the handler puts \<open>Error: \<close> before
  the message of the exception.
\<close>

theorem unknown_tool_counterexample:
  "callTool_http example_runtime example_api ''lucas@example.com'' ''bogus'' Map.empty
     = (Inr \<lparr>content = [\<lparr>c_type = ''text'', c_text = ''Error: Unknown tool: bogus''\<rparr>],
             isError = Some True\<rparr>, [])
   \<and> ''Error: Unknown tool: bogus'' \<noteq> ''Unknown tool: bogus''
   \<and> map c_text (content (errorResult (crossMark @ '' Error: Unknown tool: bogus'')))
       \<noteq> [''Unknown tool: bogus'']
   \<and> callTool_oauth example_runtime example_mkApi (JStr ''s1'') example_state ''bogus'' Map.empty
     = (Inr (errorResult (crossMark @ '' Error: Unknown tool: bogus'')), [])"
  by (simp add: callTool_http_def callTool_oauth_def toolSwitch_def throwError_def
        errorResult_def arg_def getCurrentAccessToken_def map_get_def example_state_def
        errorMessage_def crossMark_def)

text \<open>
  Claim C5 fails on the code. The id \<open>reading:\<close> followed by a timestamp is split
  at every colon and only the first two pieces are kept, so a timestamp that has a
  colon in it (every ISO-8601 timestamp with a time of day) is cut at that colon.
  What is parsed as the centre of the window and compared with the dates of the
  readings is the cut text. When the collaborator answers with readings dated
  exactly with the timestamp of the id, none of them is found: the call ends in an
  error result. The statement is for the single-tenant HTTP server; the OAuth
  server runs the same \<open>switch\<close>.
\<close>

theorem fetch_iso_timestamp_not_found:
  assumes "CHR '':'' \<in> set ts"
    and "\<forall>p rs. getGlucoseReadings api p = Inr rs \<longrightarrow> (\<forall>r\<in>set rs. r_date r = ts)"
    and "DEFAULT_USER_ID \<noteq> []"
  shows "\<exists>msg. fst (callTool_http rt api DEFAULT_USER_ID ''fetch''
                      [''id'' \<mapsto> JStr (''reading:'' @ ts)])
                = Inr (errorResult (''Error: '' @ msg))"
proof -
  have "\<exists>e calls. fetchCase rt api (JStr DEFAULT_USER_ID) [''id'' \<mapsto> JStr (''reading:'' @ ts)]
                    = (Inl e, calls)"
    by (rule fetchCase_colon_throws) (use assms(1,2) in auto)
  then obtain e calls
    where "fetchCase rt api (JStr DEFAULT_USER_ID) [''id'' \<mapsto> JStr (''reading:'' @ ts)]
             = (Inl e, calls)"
    by blast
  then have "fst (callTool_http rt api DEFAULT_USER_ID ''fetch''
                    [''id'' \<mapsto> JStr (''reading:'' @ ts)])
               = Inr (errorResult (''Error: '' @ message e))"
    using assms(3) by (simp add: callTool_http_def toolSwitch_def arg_def)
  then show ?thesis by blast
qed

theorem fetch_iso_timestamp_not_found_witness:
  "\<exists>msg. fst (callTool_http example_runtime example_api ''lucas@example.com'' ''fetch''
                 [''id'' \<mapsto> JStr ''reading:2024-01-15T10:30:00Z''])
           = Inr (errorResult (''Error: '' @ msg))"
proof -
  have a: "CHR '':'' \<in> set ''2024-01-15T10:30:00Z''" by simp
  have b: "\<forall>p rs. getGlucoseReadings example_api p = Inr rs
             \<longrightarrow> (\<forall>r\<in>set rs. r_date r = ''2024-01-15T10:30:00Z'')"
    by (auto simp: example_api_def example_reading_def)
  have c: "''lucas@example.com'' \<noteq> []" by simp
  show ?thesis
    using fetch_iso_timestamp_not_found[OF a b c, of example_runtime] by simp
qed

text \<open>
  The example of the specification, for every runtime library: the reading dated
  \<open>2024-01-15T10:30:00Z\<close> is there, and it is not returned.
\<close>

lemma fetch_spec_example:
  "fst (callTool_http rt example_api ''lucas@example.com'' ''fetch''
          [''id'' \<mapsto> JStr ''reading:2024-01-15T10:30:00Z''])
     = Inr (errorResult ''Error: Invalid time value'')
 \<or> fst (callTool_http rt example_api ''lucas@example.com'' ''fetch''
          [''id'' \<mapsto> JStr ''reading:2024-01-15T10:30:00Z''])
     = Inr (errorResult ''Error: Reading not found for ID: reading:2024-01-15T10:30:00Z'')"
  by (simp add: callTool_http_def toolSwitch_def fetchCase_def arg_def throwError_def Let_def
        toISOString_def newDate_def example_api_def example_reading_def
        split: option.splits)

text \<open>
  Claim C6. In the OAuth server, when no access token can be recovered for a tool
  invocation, because the execution has no session context or because
  \<open>sessionTokens\<close> has no entry for the session of the context, the handler returns
  a result with \<open>isError\<close> true whose text asks to authenticate again. This is so
  for every tool name and all arguments; the collaborator is not called and nothing
  is thrown.
\<close>

theorem missing_credential:
  assumes "store = JUndefined \<or> map_get (sessionTokens st) store = None"
  shows "callTool_oauth rt mkApi store st name args
           = (Inr \<lparr>content = [\<lparr>c_type = ''text'', c_text = reauthenticate\<rparr>],
                   isError = Some True\<rparr>, [])
       \<and> reauthenticate
           = crossMark @ '' Error: No access token available. Please re-authenticate.''"
  using assms
  by (auto simp: callTool_oauth_def getCurrentAccessToken_def errorResult_def reauthenticate_def)

theorem missing_credential_witness:
  "callTool_oauth example_runtime example_mkApi JUndefined example_state ''search''
     [''query'' \<mapsto> JStr ''today'']
     = (Inr \<lparr>content = [\<lparr>c_type = ''text'', c_text = reauthenticate\<rparr>], isError = Some True\<rparr>, [])
 \<and> callTool_oauth example_runtime example_mkApi (JStr ''s7'') example_state ''bogus'' Map.empty
     = (Inr \<lparr>content = [\<lparr>c_type = ''text'', c_text = reauthenticate\<rparr>], isError = Some True\<rparr>, [])"
proof -
  have a: "JUndefined = JUndefined \<or> map_get (sessionTokens example_state) JUndefined = None"
    by simp
  have b: "JStr ''s7'' = JUndefined \<or> map_get (sessionTokens example_state) (JStr ''s7'') = None"
    by (simp add: map_get_def example_state_def)
  show ?thesis
    using missing_credential[OF a, of example_runtime example_mkApi "''search''"
            "[''query'' \<mapsto> JStr ''today'']"]
          missing_credential[OF b, of example_runtime example_mkApi "''bogus''" Map.empty]
    by simp
qed

text \<open>
  Claim C10. In the stdio server and in the single-tenant HTTP server, a tool call
  that gives no \<open>userId\<close> argument, when no default user is configured, gets a result
  with \<open>isError\<close> true and the text that a userId is required. The outcome is the
  same for every tool name, the unknown ones too, and the collaborator is not
  called: the guard stands before the \<open>switch\<close> on the name.
\<close>

theorem userId_guard:
  assumes "args ''userId'' = None" and "DEFAULT_USER_ID = []"
  shows "callTool_http rt api DEFAULT_USER_ID name args
           = (Inr \<lparr>content = [\<lparr>c_type = ''text'', c_text = userIdRequired\<rparr>],
                   isError = Some True\<rparr>, [])
       \<and> callTool_stdio rt api DEFAULT_USER_ID name args
           = (Inr \<lparr>content = [\<lparr>c_type = ''text'', c_text = userIdRequired\<rparr>],
                   isError = Some True\<rparr>, [])
       \<and> take 26 userIdRequired = ''Error: userId is required.''"
  using assms
  by (simp add: callTool_http_def callTool_stdio_def arg_def errorResult_def userIdRequired_def)

theorem userId_guard_witness:
  "callTool_http example_runtime example_api [] ''bogus'' Map.empty
     = (Inr \<lparr>content = [\<lparr>c_type = ''text'', c_text = userIdRequired\<rparr>], isError = Some True\<rparr>, [])
 \<and> callTool_stdio example_runtime example_api [] ''get_latest_glucose'' Map.empty
     = (Inr \<lparr>content = [\<lparr>c_type = ''text'', c_text = userIdRequired\<rparr>], isError = Some True\<rparr>, [])"
proof -
  have a: "(Map.empty :: tool_args) ''userId'' = None" by simp
  have b: "([] :: string) = []" by simp
  show ?thesis
    using userId_guard[OF a b, of example_runtime example_api "''bogus''"]
          userId_guard[OF a b, of example_runtime example_api "''get_latest_glucose''"]
    by simp
qed

section \<open>Listing the tools\<close>

lemma run_http_frame:
  "hm_heap (run_http qs m) = hm_heap m \<and> hm_TOOLS (run_http qs m) = hm_TOOLS m"
proof (induction qs arbitrary: m)
  case Nil
  then show ?case by simp
next
  case (Cons q qs)
  have "hm_heap (http_handle q m) = hm_heap m \<and> hm_TOOLS (http_handle q m) = hm_TOOLS m"
    by (cases q) (simp_all add: listTools_http_def)
  with Cons show ?case by simp
qed

lemma oauth_handle_grows: "\<exists>ys. om_heap (oauth_handle q m) = om_heap m @ ys"
  by (cases q) (simp_all add: listTools_oauth_def alloc_def)

lemma run_oauth_grows: "\<exists>ys. om_heap (run_oauth qs m) = om_heap m @ ys"
proof (induction qs arbitrary: m)
  case Nil
  then show ?case by simp
next
  case (Cons q qs)
  obtain ys where a: "om_heap (oauth_handle q m) = om_heap m @ ys"
    using oauth_handle_grows by blast
  obtain zs where b: "om_heap (run_oauth qs (oauth_handle q m)) = om_heap (oauth_handle q m) @ zs"
    using Cons.IH by blast
  show ?case using a b by simp
qed

lemma deref_kept:
  "deref (om_heap m) r = Some v \<Longrightarrow> deref (om_heap (run_oauth qs m)) r = Some v"
proof -
  assume d: "deref (om_heap m) r = Some v"
  obtain ys where g: "om_heap (run_oauth qs m) = om_heap m @ ys"
    using run_oauth_grows by blast
  from d have "r < length (om_heap m)" "om_heap m ! r = v"
    by (auto simp: deref_def split: if_splits)
  then show ?thesis by (simp add: g deref_def nth_append)
qed

lemma listTools_oauth_fresh:
  "deref (om_heap (snd (listTools_oauth m))) (fst (listTools_oauth m)) = Some toolsLiteral
 \<and> fst (listTools_oauth m) = length (om_heap m)
 \<and> om_maps (snd (listTools_oauth m)) = om_maps m"
  by (simp add: listTools_oauth_def alloc_def deref_def)

text \<open>
  Claim C9, as amended. Let any requests have been handled since the module was
  loaded, and any further requests be handled after the listing.

  In the single-tenant HTTP server, listing the tools returns the array \<open>TOOLS\<close>
  that was made when the module loaded: the same reference each time, holding the
  descriptors of the array literal then and ever after; the listing changes nothing
  in the module.

  In the OAuth server nothing is made when the module loads. Each listing makes a
  new array, which holds the descriptors of the handler's array literal, whatever
  the session context, the registered transports and the stored tokens are; the
  listing leaves both maps as they are, and the array it returned holds the same
  descriptors after any further requests. The five names are the same in both
  servers.
\<close>

theorem tool_listing_fixed:
  "fst (listTools_http (run_http qs (http_load DEFAULT_USER_ID))) = hm_TOOLS (http_load DEFAULT_USER_ID)
 \<and> deref (hm_heap (run_http qs (http_load DEFAULT_USER_ID)))
      (fst (listTools_http (run_http qs (http_load DEFAULT_USER_ID))))
     = Some (TOOLS DEFAULT_USER_ID)
 \<and> deref (hm_heap (run_http qs' (snd (listTools_http (run_http qs (http_load DEFAULT_USER_ID))))))
      (fst (listTools_http (run_http qs (http_load DEFAULT_USER_ID))))
     = Some (TOOLS DEFAULT_USER_ID)
 \<and> snd (listTools_http (run_http qs (http_load DEFAULT_USER_ID)))
     = run_http qs (http_load DEFAULT_USER_ID)
 \<and> deref (om_heap (snd (listTools_oauth (run_oauth rs oauth_load))))
      (fst (listTools_oauth (run_oauth rs oauth_load)))
     = Some toolsLiteral
 \<and> om_maps (snd (listTools_oauth (run_oauth rs oauth_load))) = om_maps (run_oauth rs oauth_load)
 \<and> deref (om_heap (run_oauth rs' (snd (listTools_oauth (run_oauth rs oauth_load)))))
      (fst (listTools_oauth (run_oauth rs oauth_load)))
     = Some toolsLiteral
 \<and> map t_name (TOOLS DEFAULT_USER_ID)
     = [''search'', ''fetch'', ''get_glucose_readings'', ''get_latest_glucose'', ''get_glucose_stats'']
 \<and> map t_name toolsLiteral = map t_name (TOOLS DEFAULT_USER_ID)"
proof -
  let ?m = "run_http qs (http_load DEFAULT_USER_ID)"
  have load: "hm_heap (http_load DEFAULT_USER_ID) = [TOOLS DEFAULT_USER_ID]"
             "hm_TOOLS (http_load DEFAULT_USER_ID) = 0"
    by (simp_all add: http_load_def alloc_def)
  have fr: "hm_heap ?m = [TOOLS DEFAULT_USER_ID]" "hm_TOOLS ?m = 0"
    using run_http_frame[of qs "http_load DEFAULT_USER_ID"] by (simp_all add: load)
  have fr': "hm_heap (run_http qs' ?m) = [TOOLS DEFAULT_USER_ID]"
    using run_http_frame[of qs' ?m] by (simp add: fr)
  have h1: "fst (listTools_http ?m) = hm_TOOLS (http_load DEFAULT_USER_ID)"
    by (simp add: listTools_http_def fr load)
  have h2: "deref (hm_heap ?m) (fst (listTools_http ?m)) = Some (TOOLS DEFAULT_USER_ID)"
    by (simp add: listTools_http_def fr deref_def)
  have h3: "deref (hm_heap (run_http qs' (snd (listTools_http ?m)))) (fst (listTools_http ?m))
              = Some (TOOLS DEFAULT_USER_ID)"
    by (simp add: listTools_http_def fr fr' deref_def)
  have h4: "snd (listTools_http ?m) = ?m"
    by (simp add: listTools_http_def)
  let ?o = "run_oauth rs oauth_load"
  have o1: "deref (om_heap (snd (listTools_oauth ?o))) (fst (listTools_oauth ?o)) = Some toolsLiteral"
    and o2: "om_maps (snd (listTools_oauth ?o)) = om_maps ?o"
    using listTools_oauth_fresh[of ?o] by blast+
  have o3: "deref (om_heap (run_oauth rs' (snd (listTools_oauth ?o)))) (fst (listTools_oauth ?o))
              = Some toolsLiteral"
    by (rule deref_kept) (rule o1)
  have n1: "map t_name (TOOLS DEFAULT_USER_ID)
     = [''search'', ''fetch'', ''get_glucose_readings'', ''get_latest_glucose'', ''get_glucose_stats'']"
    by (simp add: TOOLS_def)
  have n2: "map t_name toolsLiteral = map t_name (TOOLS DEFAULT_USER_ID)"
    by (simp add: TOOLS_def toolsLiteral_def)
  from h1 h2 h3 h4 o1 o2 o3 n1 n2 show ?thesis by blast
qed

text \<open>
  The claim as it was stated fails in the OAuth server: the descriptors are not
  computed once at startup. The loaded module holds no descriptor array, and two
  listings in a row return two arrays, made one after the other.
\<close>

theorem tool_listing_counterexample:
  "om_heap oauth_load = []
 \<and> fst (listTools_oauth oauth_load) = 0
 \<and> fst (listTools_oauth (snd (listTools_oauth oauth_load))) = 1
 \<and> fst (listTools_oauth oauth_load) \<noteq> fst (listTools_oauth (snd (listTools_oauth oauth_load)))
 \<and> om_heap (snd (listTools_oauth (snd (listTools_oauth oauth_load)))) = [toolsLiteral, toolsLiteral]"
  by (simp add: oauth_load_def listTools_oauth_def alloc_def)

end
